theory Spec2Isabelle
  imports Complex_Main "HOL-Library.Monad_Syntax"
begin

section \<open>Data model\<close>

text \<open>
  The program of \<^verbatim>\<open>get_available_data.py\<close> reads a time-indexed table of buoy
  measurements, scans it for swell events and asks an imagery catalogue for products
  inside each event.

  A pandas time stamp is modelled as an \<^typ>\<open>int\<close> (seconds since an epoch), so that
  \<^verbatim>\<open>abs(a - b).total_seconds()\<close> is \<open>\<bar>a - b\<bar>\<close>. A measured height and a threshold are
  modelled as a \<^typ>\<open>rat\<close>, the value of the decimal text; the rounding of Python's
  \<^verbatim>\<open>float\<close> is not modelled. The window is a whole number of hours. A data frame is
  the list of its rows, in table order, and \<^verbatim>\<open>column[i]\<close> on a time-indexed frame
  is the read of row \<open>i\<close> by position.

  Of the lines printed, those of the coordinate resolver are modelled; those of the
  other functions are not. A station is identified by its number; \<^verbatim>\<open>historic\<close> passes
  it to the resolver as text, which gives the same address.
\<close>

record spec_row =
  spec_index :: int
  SwH :: rat
  WWH :: rat

record meteo_row =
  data_index :: int
  WVHT :: rat

text \<open>The three lists that both scanning loops update.\<close>

record scan_state =
  swell_event :: "int list"
  first_date :: "int list"
  last_date :: "int list"

definition scan_init :: scan_state where
  "scan_init = \<lparr>swell_event = [], first_date = [], last_date = []\<rparr>"

section \<open>The sentinel filter\<close>

text \<open>
  \<^verbatim>\<open>spec = spec[spec.SwH != 99.00]\<close> in \<^verbatim>\<open>realtime\<close> and
  \<^verbatim>\<open>data = data[data.WVHT != 99.00]\<close> in \<^verbatim>\<open>historic\<close>.
\<close>

definition realtime_filter :: "spec_row list \<Rightarrow> spec_row list" where
  "realtime_filter spec = filter (\<lambda>r. SwH r \<noteq> 99) spec"

definition historic_filter :: "meteo_row list \<Rightarrow> meteo_row list" where
  "historic_filter data = filter (\<lambda>r. WVHT r \<noteq> 99) data"

section \<open>The two scanning loops\<close>

text \<open>
  The body of \<^verbatim>\<open>for i in range(len(spec['SwH'].index))\<close> in \<^verbatim>\<open>realtime\<close>.
  After the append the list \<^verbatim>\<open>swell_event\<close> is not empty, so
  \<^verbatim>\<open>swell_event[0]\<close> and \<^verbatim>\<open>swell_event[-1]\<close> are its head and its last element.
\<close>

definition realtime_body ::
  "rat \<Rightarrow> rat \<Rightarrow> int \<Rightarrow> spec_row list \<Rightarrow> nat \<Rightarrow> scan_state \<Rightarrow> scan_state" where
  "realtime_body swell_height wind_wave_height window spec i st =
     (if SwH (spec ! i) \<ge> swell_height \<and> WWH (spec ! i) \<le> wind_wave_height then
        (let ev = swell_event st @ [spec_index (spec ! i)] in
         if \<bar>hd ev - last ev\<bar> \<ge> window * 3600 then
           st\<lparr>first_date := first_date st @ [last ev],
              last_date := last_date st @ [hd ev],
              swell_event := []\<rparr>
         else st\<lparr>swell_event := ev\<rparr>)
      else st\<lparr>swell_event := []\<rparr>)"

definition realtime_scan :: "rat \<Rightarrow> rat \<Rightarrow> int \<Rightarrow> spec_row list \<Rightarrow> scan_state" where
  "realtime_scan swell_height wind_wave_height window spec =
     fold (realtime_body swell_height wind_wave_height window spec)
       [0..<length spec] scan_init"

text \<open>The body of \<^verbatim>\<open>for i in range(len(data['WVHT'].index))\<close> in \<^verbatim>\<open>historic\<close>.\<close>

definition historic_body ::
  "rat \<Rightarrow> int \<Rightarrow> meteo_row list \<Rightarrow> nat \<Rightarrow> scan_state \<Rightarrow> scan_state" where
  "historic_body wave_height window data i st =
     (if WVHT (data ! i) \<ge> wave_height then
        (let ev = swell_event st @ [data_index (data ! i)] in
         if \<bar>hd ev - last ev\<bar> \<ge> window * 3600 then
           st\<lparr>first_date := first_date st @ [hd ev],
              last_date := last_date st @ [last ev],
              swell_event := []\<rparr>
         else st\<lparr>swell_event := ev\<rparr>)
      else st\<lparr>swell_event := []\<rparr>)"

definition historic_scan :: "rat \<Rightarrow> int \<Rightarrow> meteo_row list \<Rightarrow> scan_state" where
  "historic_scan wave_height window data =
     fold (historic_body wave_height window data) [0..<length data] scan_init"

section \<open>The windowing algorithm as the specification words it\<close>

text \<open>
  Written from the specification, not from the source: an accumulator of time stamps;
  a sample that satisfies the predicate is appended, one that fails empties the
  accumulator; when, after an append, the time between the first and the last element
  of the accumulator reaches the minimum duration, the pair (first, last) is emitted
  and the accumulator is emptied.
\<close>

fun window_scan ::
  "('r \<Rightarrow> bool) \<Rightarrow> ('r \<Rightarrow> int) \<Rightarrow> int \<Rightarrow> int list \<Rightarrow> 'r list \<Rightarrow> (int \<times> int) list" where
  "window_scan P ts d acc [] = []"
| "window_scan P ts d acc (s # ss) =
     (if P s then
        (if d \<le> \<bar>last (acc @ [ts s]) - hd (acc @ [ts s])\<bar>
         then (hd (acc @ [ts s]), last (acc @ [ts s])) # window_scan P ts d [] ss
         else window_scan P ts d (acc @ [ts s]) ss)
      else window_scan P ts d [] ss)"

definition realtime_pred :: "rat \<Rightarrow> rat \<Rightarrow> spec_row \<Rightarrow> bool" where
  "realtime_pred swell_height wind_wave_height r =
     (swell_height \<le> SwH r \<and> WWH r \<le> wind_wave_height)"

definition historic_pred :: "rat \<Rightarrow> meteo_row \<Rightarrow> bool" where
  "historic_pred wave_height r = (wave_height \<le> WVHT r)"

definition historic_step :: "rat \<Rightarrow> int \<Rightarrow> meteo_row \<Rightarrow> scan_state \<Rightarrow> scan_state" where
  "historic_step wave_height window r st = historic_body wave_height window [r] 0 st"

definition realtime_step :: "rat \<Rightarrow> rat \<Rightarrow> int \<Rightarrow> spec_row \<Rightarrow> scan_state \<Rightarrow> scan_state" where
  "realtime_step swell_height wind_wave_height window r st =
     realtime_body swell_height wind_wave_height window [r] 0 st"

section \<open>The coordinate resolver\<close>

text \<open>
  The two exceptions that the modelled statements can raise. A call into the network
  or into a client library that fails on its own is not modelled.
\<close>

datatype py_error = TypeError | KeyError

text \<open>What \<^verbatim>\<open>requests.get\<close> hands back: the fields the resolver reads.\<close>

record response =
  status_code :: int
  response_text :: string

text \<open>
  \<^verbatim>\<open>re.search(r'(\d+\.\d+) ([N|S]) (\d+\.\d+) ([W|E])', html, re.IGNORECASE)\<close>.
  Inside brackets the bar is an ordinary character, so the first class holds
  \<open>N\<close>, \<open>|\<close>, \<open>S\<close> and, the case being ignored, \<open>n\<close> and \<open>s\<close>; the second class
  likewise. Every \<^verbatim>\<open>\d+\<close> of the pattern is followed by a character that is not a
  digit, so a match takes each run of digits whole and backtracking finds nothing
  else: the matcher below reads a maximal run of digits where the pattern has
  \<^verbatim>\<open>\d+\<close>. The search returns the match at the leftmost position that has one.
  Characters are bytes; a decimal digit is one of \<open>0\<close> to \<open>9\<close>.
\<close>

definition is_digit :: "char \<Rightarrow> bool" where
  "is_digit c = (c \<in> set ''0123456789'')"

definition digits1 :: "string \<Rightarrow> (string \<times> string) option" where
  "digits1 s =
     (if takeWhile is_digit s = [] then None
      else Some (takeWhile is_digit s, dropWhile is_digit s))"

fun lit :: "char \<Rightarrow> string \<Rightarrow> string option" where
  "lit c [] = None"
| "lit c (x # xs) = (if x = c then Some xs else None)"

fun one_of :: "string \<Rightarrow> string \<Rightarrow> (char \<times> string) option" where
  "one_of cls [] = None"
| "one_of cls (x # xs) = (if x \<in> set cls then Some (x, xs) else None)"

type_synonym decimal = "string \<times> string"

type_synonym groups = "decimal \<times> char \<times> decimal \<times> char"

definition match_here :: "string \<Rightarrow> groups option" where
  "match_here s =
     do {
       (a1, r1) \<leftarrow> digits1 s;
       r2 \<leftarrow> lit CHR ''.'' r1;
       (b1, r3) \<leftarrow> digits1 r2;
       r4 \<leftarrow> lit CHR '' '' r3;
       (g2, r5) \<leftarrow> one_of ''N|Sns'' r4;
       r6 \<leftarrow> lit CHR '' '' r5;
       (a3, r7) \<leftarrow> digits1 r6;
       r8 \<leftarrow> lit CHR ''.'' r7;
       (b3, r9) \<leftarrow> digits1 r8;
       r10 \<leftarrow> lit CHR '' '' r9;
       (g4, r11) \<leftarrow> one_of ''W|Ewe'' r10;
       Some ((a1, b1), g2, (a3, b3), g4)
     }"

fun re_search :: "string \<Rightarrow> groups option" where
  "re_search [] = None"
| "re_search (c # cs) =
     (case match_here (c # cs) of Some m \<Rightarrow> Some m | None \<Rightarrow> re_search cs)"

text \<open>
  \<^verbatim>\<open>float(search.group(1))\<close> on text of the form digits, point, digits: the value of the
  decimal, as a rational.
\<close>

definition digit_val :: "char \<Rightarrow> nat" where
  "digit_val c = of_char c - 48"

definition digits_value :: "string \<Rightarrow> nat" where
  "digits_value ds = foldl (\<lambda>n c. 10 * n + digit_val c) 0 ds"

definition float_of :: "decimal \<Rightarrow> rat" where
  "float_of d = of_nat (digits_value (fst d)) + of_nat (digits_value (snd d)) / 10 ^ length (snd d)"

text \<open>
  \<^verbatim>\<open>get_lat_lon_from_ndbcnoaa\<close>. The argument \<open>requests_get\<close> is the network at the time of
  the call: the response to the request for a station's page. The result is an error,
  or the lines printed and the returned pair.

  In the branch of a status other than 200 the argument of \<^verbatim>\<open>print\<close> is
  \<^verbatim>\<open>'Something went wrong ... ' + response.status_code\<close>, a string plus an integer:
  Python raises \<^verbatim>\<open>TypeError\<close> before anything is printed or returned.
\<close>

definition get_lat_lon_from_ndbcnoaa ::
  "(int \<Rightarrow> response) \<Rightarrow> int \<Rightarrow> py_error + (string list \<times> (rat option \<times> rat option))" where
  "get_lat_lon_from_ndbcnoaa requests_get index =
     (let response = requests_get index in
      if status_code response = 200 then
        (case re_search (response_text response) of
           Some (g1, lat_direction, g3, lon_direction) \<Rightarrow>
             (let lat = float_of g1;
                  lon = float_of g3;
                  lat = (if lat_direction = CHR ''S'' then lat * (- 1) else lat);
                  lon = (if lon_direction = CHR ''W'' then lon * (- 1) else lon)
              in Inr ([], (Some lat, Some lon)))
         | None \<Rightarrow> Inr ([''Regex pattern not found... ''], (None, None)))
      else Inl TypeError)"

section \<open>The catalogue and the product titles\<close>

text \<open>
  The arguments of \<^verbatim>\<open>api.query\<close>. The footprint is the polygon around the buoy (its
  rendering as text is not modelled). The answer is an ordered dictionary from a
  product's key to the product; only the title of a product is read, so the answer is
  modelled as the list of pairs (key, title), in the dictionary's order.
\<close>

record query =
  footprint :: "(rat \<times> rat) list"
  date :: "int \<times> int"
  platformname :: string
  polarisationmode :: string
  producttype :: string
  sensoroperationalmode :: string

type_synonym products = "(string \<times> string) list"

text \<open>
  \<^verbatim>\<open>str(products.keys())\<close> of an ordered dictionary is
  \<^verbatim>\<open>odict_keys(['k1', 'k2'])\<close>: each key between single quotes (the keys of the
  catalogue are identifiers without quotes or backslashes), separated by a comma and
  a space.
\<close>

fun join :: "string \<Rightarrow> string list \<Rightarrow> string" where
  "join sep [] = []"
| "join sep [x] = x"
| "join sep (x # y # ys) = x @ sep @ join sep (y # ys)"

definition str_keys :: "products \<Rightarrow> string" where
  "str_keys products =
     ''odict_keys(['' @ join '', '' (map (\<lambda>kt. [CHR 0x27] @ fst kt @ [CHR 0x27]) products) @ ''])''"

text \<open>The slice \<^verbatim>\<open>s[a:-b]\<close> for \<open>b > 0\<close>, and \<^verbatim>\<open>s.split(',')\<close>.\<close>

definition slice :: "nat \<Rightarrow> nat \<Rightarrow> string \<Rightarrow> string" where
  "slice a b s = drop a (take (length s - b) s)"

fun split_comma :: "string \<Rightarrow> string list" where
  "split_comma [] = [[]]"
| "split_comma (c # cs) =
     (if c = CHR '','' then [] # split_comma cs
      else (case split_comma cs of [] \<Rightarrow> [[c]] | w # ws \<Rightarrow> (c # w) # ws))"

text \<open>
  The block that both functions use to compute \<^verbatim>\<open>product_keys\<close>: the text of the keys
  is cut, split at the commas, and each piece loses its quotes (and its leading space,
  from the second on).
\<close>

definition product_keys_of :: "products \<Rightarrow> string list" where
  "product_keys_of products =
     (let cleaning_data = split_comma (slice 12 2 (str_keys products))
      in map (\<lambda>i. if i = 0 then slice 1 1 (cleaning_data ! i) else slice 2 1 (cleaning_data ! i))
           [0..<length cleaning_data])"

definition title_of :: "products \<Rightarrow> string \<Rightarrow> py_error + string" where
  "title_of products k = (case map_of products k of None \<Rightarrow> Inl KeyError | Some t \<Rightarrow> Inr t)"

text \<open>
  What a run of the second loop builds: the list that the function returns, and the
  product sets handed to \<^verbatim>\<open>api.download_all\<close>.
\<close>

record fetch_state =
  product_list :: "string list"
  downloaded :: "products list"

definition fetch_init :: fetch_state where
  "fetch_init = \<lparr>product_list = [], downloaded = []\<rparr>"

text \<open>
  The body of the second loop of \<^verbatim>\<open>realtime\<close>, after the query. The loop that cleans
  the keys uses the variable \<open>i\<close> again; when it ends \<open>i\<close> is the index of the last
  key, and that is the index used in \<^verbatim>\<open>products[product_keys[i]]['title']\<close>. In
  \<^verbatim>\<open>realtime\<close> the title is printed in both branches, so it is looked up in both.
\<close>

definition realtime_event :: "string \<Rightarrow> products \<Rightarrow> fetch_state \<Rightarrow> py_error + fetch_state" where
  "realtime_event auto_download products fs =
     (if length products = 0 then Inr fs
      else
        (let product_keys = product_keys_of products;
             i = length product_keys - 1
         in if auto_download = ''on'' then
              (case title_of products (product_keys ! i) of
                 Inl e \<Rightarrow> Inl e
               | Inr t \<Rightarrow> Inr (fs\<lparr>downloaded := downloaded fs @ [products]\<rparr>))
            else
              (case title_of products (product_keys ! i) of
                 Inl e \<Rightarrow> Inl e
               | Inr t \<Rightarrow> Inr (fs\<lparr>product_list := product_list fs @ [t]\<rparr>))))"

text \<open>The same body in \<^verbatim>\<open>historic\<close>, where the title is read in the else branch only.\<close>

definition historic_event :: "string \<Rightarrow> products \<Rightarrow> fetch_state \<Rightarrow> py_error + fetch_state" where
  "historic_event auto_download products fs =
     (if length products = 0 then Inr fs
      else
        (let product_keys = product_keys_of products;
             i = length product_keys - 1
         in if auto_download = ''on'' then
              Inr (fs\<lparr>downloaded := downloaded fs @ [products]\<rparr>)
            else
              (case title_of products (product_keys ! i) of
                 Inl e \<Rightarrow> Inl e
               | Inr t \<Rightarrow> Inr (fs\<lparr>product_list := product_list fs @ [t]\<rparr>))))"

text \<open>\<^verbatim>\<open>for i in range(len(first_date))\<close>: the bodies in order, until one raises.\<close>

fun run_events ::
  "(nat \<Rightarrow> fetch_state \<Rightarrow> py_error + fetch_state) \<Rightarrow> nat list \<Rightarrow> fetch_state \<Rightarrow> py_error + fetch_state" where
  "run_events body [] fs = Inr fs"
| "run_events body (i # is) fs =
     (case body i fs of Inl e \<Rightarrow> Inl e | Inr fs' \<Rightarrow> run_events body is fs')"

section \<open>The entry points\<close>

text \<open>
  The world outside the program at the time of a call: the station pages, the two
  tables of the buoy client, and the catalogue for given credentials.
\<close>

record world =
  requests_get :: "int \<Rightarrow> response"
  bp_realtime :: "int \<Rightarrow> spec_row list"
  bp_historic_data :: "int \<Rightarrow> int \<Rightarrow> meteo_row list"
  api_query :: "string \<Rightarrow> string \<Rightarrow> query \<Rightarrow> products"

definition polygon_around :: "rat \<Rightarrow> rat \<Rightarrow> (rat \<times> rat) list" where
  "polygon_around lat lon =
     (let dx = 1 / 1000
      in [(lon, lat + dx), (lon + dx, lat), (lon, lat - dx), (lon - dx, lat), (lon, lat + dx)])"

text \<open>
  \<^verbatim>\<open>realtime\<close>. With a null coordinate \<^verbatim>\<open>lat+dx\<close> raises \<^verbatim>\<open>TypeError\<close>. The value
  returned is \<open>product_list\<close> of the result.
\<close>

definition realtime ::
  "world \<Rightarrow> int \<Rightarrow> string \<Rightarrow> string \<Rightarrow> rat \<Rightarrow> int \<Rightarrow> rat \<Rightarrow> string \<Rightarrow> string \<Rightarrow> string \<Rightarrow> string \<Rightarrow> string
   \<Rightarrow> py_error + fetch_state" where
  "realtime w location username password swell_height window wind_wave_height
     platformname' polarisationmode' producttype' sensoroperationalmode' auto_download =
     (case get_lat_lon_from_ndbcnoaa (requests_get w) location of
        Inl e \<Rightarrow> Inl e
      | Inr (out, None, lon) \<Rightarrow> Inl TypeError
      | Inr (out, Some lat, None) \<Rightarrow> Inl TypeError
      | Inr (out, Some lat, Some lon) \<Rightarrow>
          (let spec = realtime_filter (bp_realtime w location);
               st = realtime_scan swell_height wind_wave_height window spec
           in run_events
                (\<lambda>i. realtime_event auto_download
                   (api_query w username password
                      \<lparr>footprint = polygon_around lat lon,
                       date = (first_date st ! i, last_date st ! i),
                       platformname = platformname',
                       polarisationmode = polarisationmode',
                       producttype = producttype',
                       sensoroperationalmode = sensoroperationalmode'\<rparr>))
                [0..<length (first_date st)] fetch_init))"

definition historic ::
  "world \<Rightarrow> int \<Rightarrow> int \<Rightarrow> string \<Rightarrow> string \<Rightarrow> rat \<Rightarrow> int \<Rightarrow> string \<Rightarrow> string \<Rightarrow> string \<Rightarrow> string \<Rightarrow> string
   \<Rightarrow> py_error + fetch_state" where
  "historic w location year username password wave_height window
     platformname' polarisationmode' producttype' sensoroperationalmode' auto_download =
     (case get_lat_lon_from_ndbcnoaa (requests_get w) location of
        Inl e \<Rightarrow> Inl e
      | Inr (out, None, lon) \<Rightarrow> Inl TypeError
      | Inr (out, Some lat, None) \<Rightarrow> Inl TypeError
      | Inr (out, Some lat, Some lon) \<Rightarrow>
          (let data = historic_filter (bp_historic_data w location year);
               st = historic_scan wave_height window data
           in run_events
                (\<lambda>i. historic_event auto_download
                   (api_query w username password
                      \<lparr>footprint = polygon_around lat lon,
                       date = (first_date st ! i, last_date st ! i),
                       platformname = platformname',
                       polarisationmode = polarisationmode',
                       producttype = producttype',
                       sensoroperationalmode = sensoroperationalmode'\<rparr>))
                [0..<length (first_date st)] fetch_init))"

definition list_of_realtime_buoys_NOAA :: "int list" where
  "list_of_realtime_buoys_NOAA =
     [41001, 41002, 41004, 41008, 41009, 41010, 41013, 41040, 41043, 41044, 41046, 41047,
      41048, 41049, 42002, 42012, 42019, 42020, 42036, 42039, 42040, 42055, 42056, 42059,
      42060, 44005, 44007, 44008, 44009, 44011, 44013, 44014, 44017, 44020, 44025, 44027,
      44065, 44066, 46002, 46005, 46006, 46011, 46012, 46014, 46015, 46022, 46025, 46026,
      46027, 46028, 46029, 46035, 46041, 46042, 46047, 46050, 46054, 46059, 46061, 46069,
      46070, 46072, 46073, 46076, 46077, 46080, 46081, 46082, 46083, 46085, 46086, 46089,
      51000, 51001, 51003, 51004, 51101]"

text \<open>
  The first loop of \<^verbatim>\<open>any_realtime\<close>: \<^verbatim>\<open>all_products += [realtime(station, username,
  password, swell_height)]\<close>, every other parameter of \<^verbatim>\<open>realtime\<close> at its default. The
  second loop only prints.
\<close>

fun all_products_loop ::
  "(int \<Rightarrow> py_error + fetch_state) \<Rightarrow> int list \<Rightarrow> string list list \<Rightarrow> py_error + string list list" where
  "all_products_loop call [] all_products = Inr all_products"
| "all_products_loop call (station # rest) all_products =
     (case call station of
        Inl e \<Rightarrow> Inl e
      | Inr fs \<Rightarrow> all_products_loop call rest (all_products @ [product_list fs]))"

definition any_realtime ::
  "world \<Rightarrow> string \<Rightarrow> string \<Rightarrow> rat \<Rightarrow> int \<Rightarrow> rat \<Rightarrow> string \<Rightarrow> string \<Rightarrow> string \<Rightarrow> string
   \<Rightarrow> py_error + string list list" where
  "any_realtime w username password swell_height window wind_wave_height
     platformname' polarisationmode' producttype' sensoroperationalmode' =
     all_products_loop
       (\<lambda>station. realtime w station username password swell_height
          24 99 ''Sentinel-1'' ''VV'' ''SLC'' ''IW'' ''off'')
       list_of_realtime_buoys_NOAA []"

section \<open>Auxiliary notions for the proofs\<close>

text \<open>
  Along a list of time stamps, the distance from \<open>t0\<close> reaches \<open>d\<close> at the last
  element and at no earlier one.
\<close>

fun reaches_at_last :: "int \<Rightarrow> int \<Rightarrow> int list \<Rightarrow> bool" where
  "reaches_at_last d t0 [] = False"
| "reaches_at_last d t0 [t] = (d \<le> \<bar>t - t0\<bar>)"
| "reaches_at_last d t0 (t # t' # ts) = (\<bar>t - t0\<bar> < d \<and> reaches_at_last d t0 (t' # ts))"

text \<open>
  A run of qualifying samples that starts with an empty accumulator (the series starts
  with it, or the sample before it fails the predicate), whose time stamps go strictly
  one way and whose first and last time stamps are exactly \<open>d\<close> apart.
\<close>

definition exact_run :: "('r \<Rightarrow> bool) \<Rightarrow> ('r \<Rightarrow> int) \<Rightarrow> int \<Rightarrow> 'r list \<Rightarrow> 'r list \<Rightarrow> bool" where
  "exact_run P ts d pre run =
     ((pre = [] \<or> \<not> P (last pre)) \<and> run \<noteq> [] \<and> list_all P run \<and>
      (sorted_wrt (<) (map ts run) \<or> sorted_wrt (>) (map ts run)) \<and>
      \<bar>ts (last run) - ts (hd run)\<bar> = d)"

section \<open>The example series of the specification\<close>

text \<open>
  Six samples one hour apart, \<open>t0 = 0\<close> to \<open>t5 = 18000\<close> seconds; the height is above
  the threshold 1 at the first four.
\<close>

definition hourly_data :: "meteo_row list" where
  "hourly_data =
     [\<lparr>data_index = 0, WVHT = 2\<rparr>, \<lparr>data_index = 3600, WVHT = 2\<rparr>,
      \<lparr>data_index = 7200, WVHT = 2\<rparr>, \<lparr>data_index = 10800, WVHT = 2\<rparr>,
      \<lparr>data_index = 14400, WVHT = 1 / 2\<rparr>, \<lparr>data_index = 18000, WVHT = 1 / 2\<rparr>]"

definition hourly_spec :: "spec_row list" where
  "hourly_spec =
     [\<lparr>spec_index = 0, SwH = 2, WWH = 1\<rparr>, \<lparr>spec_index = 3600, SwH = 2, WWH = 1\<rparr>,
      \<lparr>spec_index = 7200, SwH = 2, WWH = 1\<rparr>, \<lparr>spec_index = 10800, SwH = 2, WWH = 1\<rparr>,
      \<lparr>spec_index = 14400, SwH = 1 / 2, WWH = 1\<rparr>, \<lparr>spec_index = 18000, SwH = 1 / 2, WWH = 1\<rparr>]"

text \<open>
  The same series with a sentinel row between the second and the third sample, and a
  world in which every station has this series, a page with the position
  \<open>41.2 N 72.6 W\<close>, and a catalogue that answers every query with two products.
\<close>

definition sentinel_spec_row :: spec_row where
  "sentinel_spec_row = \<lparr>spec_index = 5400, SwH = 99, WWH = 1\<rparr>"

definition sentinel_data_row :: meteo_row where
  "sentinel_data_row = \<lparr>data_index = 5400, WVHT = 99\<rparr>"

definition demo_world :: world where
  "demo_world =
     \<lparr>requests_get = (\<lambda>index. \<lparr>status_code = 200, response_text = ''<b>41.2 N 72.6 W</b>''\<rparr>),
      bp_realtime = (\<lambda>location. take 2 hourly_spec @ sentinel_spec_row # drop 2 hourly_spec),
      bp_historic_data = (\<lambda>location year. take 2 hourly_data @ sentinel_data_row # drop 2 hourly_data),
      api_query = (\<lambda>username password q.
        [(''5f1c'', ''S1A_IW_SLC_001''), (''9e2d'', ''S1A_IW_SLC_002'')])\<rparr>"

section \<open>The loops read the rows in order\<close>

lemma fold_index_rows: "fold (\<lambda>i. f (xs ! i)) [0..<length xs] s = fold f xs s"
proof -
  have "fold f (map (\<lambda>i. xs ! i) [0..<length xs]) s = fold (f \<circ> (\<lambda>i. xs ! i)) [0..<length xs] s"
    by (simp add: fold_map)
  moreover have "map (\<lambda>i. xs ! i) [0..<length xs] = xs"
    by (rule map_nth)
  ultimately show ?thesis
    by (simp add: comp_def)
qed

lemma historic_body_step:
  "historic_body h w data i = historic_step h w (data ! i)"
  by (rule ext) (simp add: historic_body_def historic_step_def)

lemma realtime_body_step:
  "realtime_body s ww w spec i = realtime_step s ww w (spec ! i)"
  by (rule ext) (simp add: realtime_body_def realtime_step_def)

lemma historic_scan_fold:
  "historic_scan h w data = fold (historic_step h w) data scan_init"
  unfolding historic_scan_def historic_body_step by (rule fold_index_rows)

lemma realtime_scan_fold:
  "realtime_scan s ww w spec = fold (realtime_step s ww w) spec scan_init"
  unfolding realtime_scan_def realtime_body_step by (rule fold_index_rows)

lemma historic_step_fail:
  "\<not> historic_pred h r \<Longrightarrow> historic_step h w r st = st\<lparr>swell_event := []\<rparr>"
  by (simp add: historic_step_def historic_body_def historic_pred_def)

lemma historic_step_keep:
  "historic_pred h r \<Longrightarrow>
   \<not> w * 3600 \<le> \<bar>last (swell_event st @ [data_index r]) - hd (swell_event st @ [data_index r])\<bar> \<Longrightarrow>
   historic_step h w r st = st\<lparr>swell_event := swell_event st @ [data_index r]\<rparr>"
  by (simp add: historic_step_def historic_body_def historic_pred_def Let_def abs_minus_commute)

lemma historic_step_emit:
  "historic_pred h r \<Longrightarrow>
   w * 3600 \<le> \<bar>last (swell_event st @ [data_index r]) - hd (swell_event st @ [data_index r])\<bar> \<Longrightarrow>
   historic_step h w r st =
     st\<lparr>first_date := first_date st @ [hd (swell_event st @ [data_index r])],
        last_date := last_date st @ [last (swell_event st @ [data_index r])],
        swell_event := []\<rparr>"
  by (simp add: historic_step_def historic_body_def historic_pred_def Let_def abs_minus_commute)

lemma realtime_step_fail:
  "\<not> realtime_pred s ww r \<Longrightarrow> realtime_step s ww w r st = st\<lparr>swell_event := []\<rparr>"
  by (auto simp add: realtime_step_def realtime_body_def realtime_pred_def)

lemma realtime_step_keep:
  "realtime_pred s ww r \<Longrightarrow>
   \<not> w * 3600 \<le> \<bar>last (swell_event st @ [spec_index r]) - hd (swell_event st @ [spec_index r])\<bar> \<Longrightarrow>
   realtime_step s ww w r st = st\<lparr>swell_event := swell_event st @ [spec_index r]\<rparr>"
  by (simp add: realtime_step_def realtime_body_def realtime_pred_def Let_def abs_minus_commute)

lemma realtime_step_emit:
  "realtime_pred s ww r \<Longrightarrow>
   w * 3600 \<le> \<bar>last (swell_event st @ [spec_index r]) - hd (swell_event st @ [spec_index r])\<bar> \<Longrightarrow>
   realtime_step s ww w r st =
     st\<lparr>first_date := first_date st @ [last (swell_event st @ [spec_index r])],
        last_date := last_date st @ [hd (swell_event st @ [spec_index r])],
        swell_event := []\<rparr>"
  by (simp add: realtime_step_def realtime_body_def realtime_pred_def Let_def abs_minus_commute)

lemma historic_fold_events:
  "first_date (fold (historic_step h w) data st) =
     first_date st @ map fst (window_scan (historic_pred h) data_index (w * 3600) (swell_event st) data)
   \<and> last_date (fold (historic_step h w) data st) =
     last_date st @ map snd (window_scan (historic_pred h) data_index (w * 3600) (swell_event st) data)"
proof (induction data arbitrary: st)
  case Nil
  show ?case by simp
next
  case (Cons r rs)
  let ?ev = "swell_event st @ [data_index r]"
  consider (fail) "\<not> historic_pred h r"
    | (keep) "historic_pred h r" "\<not> w * 3600 \<le> \<bar>last ?ev - hd ?ev\<bar>"
    | (emit) "historic_pred h r" "w * 3600 \<le> \<bar>last ?ev - hd ?ev\<bar>"
    by blast
  then show ?case
  proof cases
    case fail
    then show ?thesis
      using Cons.IH [of "st\<lparr>swell_event := []\<rparr>"] by (simp add: historic_step_fail)
  next
    case keep
    then show ?thesis
      using Cons.IH [of "st\<lparr>swell_event := ?ev\<rparr>"] by (simp add: historic_step_keep)
  next
    case emit
    then show ?thesis
      using Cons.IH [of "st\<lparr>first_date := first_date st @ [hd ?ev],
        last_date := last_date st @ [last ?ev], swell_event := []\<rparr>"]
      by (simp add: historic_step_emit)
  qed
qed

lemma realtime_fold_events:
  "first_date (fold (realtime_step s ww w) spec st) =
     first_date st @ map snd (window_scan (realtime_pred s ww) spec_index (w * 3600) (swell_event st) spec)
   \<and> last_date (fold (realtime_step s ww w) spec st) =
     last_date st @ map fst (window_scan (realtime_pred s ww) spec_index (w * 3600) (swell_event st) spec)"
proof (induction spec arbitrary: st)
  case Nil
  show ?case by simp
next
  case (Cons r rs)
  let ?ev = "swell_event st @ [spec_index r]"
  consider (fail) "\<not> realtime_pred s ww r"
    | (keep) "realtime_pred s ww r" "\<not> w * 3600 \<le> \<bar>last ?ev - hd ?ev\<bar>"
    | (emit) "realtime_pred s ww r" "w * 3600 \<le> \<bar>last ?ev - hd ?ev\<bar>"
    by blast
  then show ?case
  proof cases
    case fail
    then show ?thesis
      using Cons.IH [of "st\<lparr>swell_event := []\<rparr>"] by (simp add: realtime_step_fail)
  next
    case keep
    then show ?thesis
      using Cons.IH [of "st\<lparr>swell_event := ?ev\<rparr>"] by (simp add: realtime_step_keep)
  next
    case emit
    then show ?thesis
      using Cons.IH [of "st\<lparr>first_date := first_date st @ [last ?ev],
        last_date := last_date st @ [hd ?ev], swell_event := []\<rparr>"]
      by (simp add: realtime_step_emit)
  qed
qed

lemma historic_scan_events:
  "first_date (historic_scan h w data) =
     map fst (window_scan (historic_pred h) data_index (w * 3600) [] data)
   \<and> last_date (historic_scan h w data) =
     map snd (window_scan (historic_pred h) data_index (w * 3600) [] data)"
  using historic_fold_events [of h w data scan_init]
  by (simp add: historic_scan_fold scan_init_def)

lemma realtime_scan_events:
  "first_date (realtime_scan s ww w spec) =
     map snd (window_scan (realtime_pred s ww) spec_index (w * 3600) [] spec)
   \<and> last_date (realtime_scan s ww w spec) =
     map fst (window_scan (realtime_pred s ww) spec_index (w * 3600) [] spec)"
  using realtime_fold_events [of s ww w spec scan_init]
  by (simp add: realtime_scan_fold scan_init_def)

section \<open>Properties of the windowing algorithm\<close>

lemma window_scan_all_fail:
  "list_all (\<lambda>r. \<not> P r) xs \<Longrightarrow> window_scan P ts d acc xs = []"
  by (induction xs arbitrary: acc) simp_all

lemma window_scan_append_reset:
  "pre = [] \<or> \<not> P (last pre) \<Longrightarrow>
   window_scan P ts d acc (pre @ xs) =
     window_scan P ts d acc pre @ window_scan P ts d (if pre = [] then acc else []) xs"
proof (induction pre arbitrary: acc)
  case Nil
  show ?case by simp
next
  case (Cons r rs)
  show ?case
  proof (cases "rs = []")
    case True
    with Cons.prems show ?thesis by simp
  next
    case False
    with Cons.prems have "rs = [] \<or> \<not> P (last rs)" by simp
    from Cons.IH [OF this] False show ?thesis by simp
  qed
qed

lemma window_scan_run:
  "list_all P run \<Longrightarrow> reaches_at_last d (hd (acc @ map ts run)) (map ts run) \<Longrightarrow>
   window_scan P ts d acc (run @ post) =
     (hd (acc @ map ts run), ts (last run)) # window_scan P ts d [] post"
proof (induction run arbitrary: acc)
  case Nil
  then show ?case by simp
next
  case (Cons r rs)
  show ?case
  proof (cases rs)
    case Nil
    with Cons.prems show ?thesis by (simp add: hd_append)
  next
    case (Cons r' rs')
    have hd_eq: "hd ((acc @ [ts r]) @ map ts rs) = hd (acc @ map ts (r # rs))"
      by (simp add: hd_append)
    from Cons.prems Cons have small: "\<not> d \<le> \<bar>ts r - hd (acc @ [ts r])\<bar>"
      by (simp add: hd_append split: if_splits)
    from Cons.prems Cons have "reaches_at_last d (hd ((acc @ [ts r]) @ map ts rs)) (map ts rs)"
      by (simp add: hd_append split: if_splits)
    moreover from Cons.prems have "list_all P rs" by simp
    ultimately have "window_scan P ts d (acc @ [ts r]) (rs @ post) =
      (hd ((acc @ [ts r]) @ map ts rs), ts (last rs)) # window_scan P ts d [] post"
      by (rule Cons.IH [rotated])
    with small Cons.prems Cons show ?thesis
      by (simp add: hd_append)
  qed
qed

lemma increasing_hd_last: "sorted_wrt (<) (t # ts) \<Longrightarrow> t \<le> last (t # ts)" for t :: int
  using last_in_set [of ts] by (cases "ts = []") (auto intro: less_imp_le)

lemma decreasing_hd_last: "sorted_wrt (>) (t # ts) \<Longrightarrow> last (t # ts) \<le> t" for t :: int
  using last_in_set [of ts] by (cases "ts = []") (auto intro: less_imp_le)

lemma increasing_reaches:
  "sorted_wrt (<) tms \<Longrightarrow> tms \<noteq> [] \<Longrightarrow> t0 \<le> hd tms \<Longrightarrow> last tms - t0 = d \<Longrightarrow> reaches_at_last d t0 tms"
proof (induction d t0 tms rule: reaches_at_last.induct)
  case (1 d t0)
  then show ?case by simp
next
  case (2 d t0 t)
  then show ?case by simp
next
  case (3 d t0 t t' ts)
  from "3.prems" have lt: "t < t'" and sorted: "sorted_wrt (<) (t' # ts)" by simp_all
  from sorted have "t' \<le> last (t' # ts)"
    by (rule increasing_hd_last)
  with lt "3.prems" have "\<bar>t - t0\<bar> < d" by simp
  moreover have "reaches_at_last d t0 (t' # ts)"
    using "3.prems" lt sorted by (intro "3.IH") simp_all
  ultimately show ?case by simp
qed

lemma decreasing_reaches:
  "sorted_wrt (>) tms \<Longrightarrow> tms \<noteq> [] \<Longrightarrow> hd tms \<le> t0 \<Longrightarrow> t0 - last tms = d \<Longrightarrow> reaches_at_last d t0 tms"
proof (induction d t0 tms rule: reaches_at_last.induct)
  case (1 d t0)
  then show ?case by simp
next
  case (2 d t0 t)
  then show ?case by simp
next
  case (3 d t0 t t' ts)
  from "3.prems" have lt: "t' < t" and sorted: "sorted_wrt (>) (t' # ts)" by simp_all
  from sorted have "last (t' # ts) \<le> t'"
    by (rule decreasing_hd_last)
  with lt "3.prems" have "\<bar>t - t0\<bar> < d" by simp
  moreover have "reaches_at_last d t0 (t' # ts)"
    using "3.prems" lt sorted by (intro "3.IH") simp_all
  ultimately show ?case by simp
qed

lemma window_scan_endpoints:
  "(a, b) \<in> set (window_scan P ts d acc xs) \<Longrightarrow>
   d \<le> \<bar>b - a\<bar> \<and> a \<in> set acc \<union> ts ` {x \<in> set xs. P x} \<and> b \<in> ts ` {x \<in> set xs. P x}"
proof (induction xs arbitrary: acc)
  case Nil
  then show ?case by simp
next
  case (Cons r rs)
  let ?ev = "acc @ [ts r]"
  consider (fail) "\<not> P r"
    | (keep) "P r" "\<not> d \<le> \<bar>last ?ev - hd ?ev\<bar>"
    | (emit) "P r" "d \<le> \<bar>last ?ev - hd ?ev\<bar>"
    by blast
  then show ?case
  proof cases
    case fail
    with Cons.prems have "(a, b) \<in> set (window_scan P ts d [] rs)" by simp
    from Cons.IH [OF this] show ?thesis by auto
  next
    case keep
    with Cons.prems have "(a, b) \<in> set (window_scan P ts d ?ev rs)" by simp
    from Cons.IH [OF this] keep(1) show ?thesis by auto
  next
    case emit
    with Cons.prems have "(a, b) = (hd ?ev, last ?ev) \<or> (a, b) \<in> set (window_scan P ts d [] rs)"
      by simp
    then show ?thesis
    proof
      assume "(a, b) = (hd ?ev, last ?ev)"
      moreover have "hd ?ev \<in> set acc \<union> {ts r}" by (cases acc) simp_all
      ultimately show ?thesis using emit by auto
    next
      assume "(a, b) \<in> set (window_scan P ts d [] rs)"
      from Cons.IH [OF this] show ?thesis by auto
    qed
  qed
qed

lemma window_scan_map:
  "window_scan P ts d acc xs = window_scan fst snd d acc (map (\<lambda>x. (P x, ts x)) xs)"
  by (induction xs arbitrary: acc) simp_all

lemma realtime_filter_sentinel:
  "SwH x = 99 \<Longrightarrow> realtime_filter (xs @ x # ys) = realtime_filter (xs @ ys)"
  by (simp add: realtime_filter_def)

lemma historic_filter_sentinel:
  "WVHT x = 99 \<Longrightarrow> historic_filter (xs @ x # ys) = historic_filter (xs @ ys)"
  by (simp add: historic_filter_def)

lemma window_scan_lone: "0 < d \<Longrightarrow> window_scan P ts d [] [r] = []"
  by simp

lemma window_scan_first_two:
  "list_all (\<lambda>r. \<not> P r) pre \<Longrightarrow> P a \<Longrightarrow> P b \<Longrightarrow> 0 < d \<Longrightarrow> d \<le> \<bar>ts b - ts a\<bar> \<Longrightarrow>
   window_scan P ts d [] (pre @ a # b # rest) = (ts a, ts b) # window_scan P ts d [] rest"
  by (induction pre) simp_all

lemma window_scan_distinct_endpoints:
  "0 < d \<Longrightarrow> list_all (\<lambda>e. fst e \<noteq> snd e) (window_scan P ts d acc xs)"
proof -
  assume pos: "0 < d"
  have "fst e \<noteq> snd e" if "e \<in> set (window_scan P ts d acc xs)" for e
  proof -
    from that have "(fst e, snd e) \<in> set (window_scan P ts d acc xs)" by simp
    from window_scan_endpoints [OF this] pos show ?thesis by auto
  qed
  then show ?thesis by (simp add: list_all_iff)
qed

lemma exact_run_reaches:
  assumes "exact_run P ts d pre run"
  shows "reaches_at_last d (ts (hd run)) (map ts run)"
proof -
  from assms have ne: "map ts run \<noteq> []" and
    dir: "sorted_wrt (<) (map ts run) \<or> sorted_wrt (>) (map ts run)" and
    dist: "\<bar>ts (last run) - ts (hd run)\<bar> = d"
    by (simp_all add: exact_run_def)
  from ne have hd_eq: "hd (map ts run) = ts (hd run)" and last_eq: "last (map ts run) = ts (last run)"
    by (simp_all add: hd_map last_map)
  from dir show ?thesis
  proof
    assume inc: "sorted_wrt (<) (map ts run)"
    then have "hd (map ts run) \<le> last (map ts run)"
      using ne increasing_hd_last [of "hd (map ts run)" "tl (map ts run)"] by simp
    with dist hd_eq last_eq have "last (map ts run) - ts (hd run) = d" by simp
    with inc ne hd_eq show ?thesis by (intro increasing_reaches) simp_all
  next
    assume dec: "sorted_wrt (>) (map ts run)"
    then have "last (map ts run) \<le> hd (map ts run)"
      using ne decreasing_hd_last [of "hd (map ts run)" "tl (map ts run)"] by simp
    with dist hd_eq last_eq have "ts (hd run) - last (map ts run) = d" by simp
    with dec ne hd_eq show ?thesis by (intro decreasing_reaches) simp_all
  qed
qed

lemma window_scan_exact_run:
  assumes "exact_run P ts d pre run"
  shows "window_scan P ts d [] (pre @ run @ post) =
           window_scan P ts d [] pre @ (ts (hd run), ts (last run)) # window_scan P ts d [] post"
proof -
  from assms have pre: "pre = [] \<or> \<not> P (last pre)" and ne: "run \<noteq> []" and all: "list_all P run"
    by (simp_all add: exact_run_def)
  have "window_scan P ts d [] (pre @ run @ post) =
          window_scan P ts d [] pre @ window_scan P ts d [] (run @ post)"
    using pre window_scan_append_reset [of pre P ts d "[]" "run @ post"] by simp
  moreover have "reaches_at_last d (hd ([] @ map ts run)) (map ts run)"
    using exact_run_reaches [OF assms] ne by (simp add: hd_map)
  then have "window_scan P ts d [] (run @ post) =
      (hd ([] @ map ts run), ts (last run)) # window_scan P ts d [] post"
    by (rule window_scan_run [OF all])
  ultimately show ?thesis using ne by (simp add: hd_map)
qed

section \<open>The claims\<close>

text \<open>
  C1. Both scanning loops compute the windowing algorithm of the specification: a sample
  that satisfies the predicate (height at least the threshold and, in the realtime
  variant, wind-wave height at most its threshold) is appended to the accumulator, a
  sample that fails empties it, and once the first and the last element of the
  accumulator are at least the minimum duration apart one event with these two
  endpoints is emitted and the accumulator is emptied. The events recorded by
  \<^verbatim>\<open>realtime\<close> and \<^verbatim>\<open>historic\<close> are the events of \<^const>\<open>window_scan\<close>.
\<close>

theorem windowing_scan_algorithm:
  "first_date (realtime_scan s ww w spec) =
     map snd (window_scan (realtime_pred s ww) spec_index (w * 3600) [] spec)
   \<and> last_date (realtime_scan s ww w spec) =
     map fst (window_scan (realtime_pred s ww) spec_index (w * 3600) [] spec)
   \<and> first_date (historic_scan h w data) =
     map fst (window_scan (historic_pred h) data_index (w * 3600) [] data)
   \<and> last_date (historic_scan h w data) =
     map snd (window_scan (historic_pred h) data_index (w * 3600) [] data)"
  using realtime_scan_events [of s ww w spec] historic_scan_events [of h w data] by simp

theorem windowing_scan_algorithm_witness:
  "first_date (realtime_scan 1 99 3 hourly_spec) = [10800]
   \<and> last_date (realtime_scan 1 99 3 hourly_spec) = [0]
   \<and> first_date (historic_scan 1 3 hourly_data) = [0]
   \<and> last_date (historic_scan 1 3 hourly_data) = [10800]"
  using windowing_scan_algorithm [of 1 99 3 hourly_spec 1 hourly_data]
  by (simp add: hourly_spec_def hourly_data_def realtime_pred_def historic_pred_def)

text \<open>
  C2. A qualifying run whose first and last time stamps are exactly the minimum window
  apart yields exactly one event, with the run's first and last time stamps as
  endpoints: in \<^verbatim>\<open>historic\<close> the event is recorded (first, last), in \<^verbatim>\<open>realtime\<close>
  (last, first). The events before the run and after it are those of the series before
  and after, scanned on their own, because the accumulator is empty again after the
  emission. For the series \<open>t0..t5\<close> of the specification, with the predicate true at
  \<open>t0..t3\<close> and a window of three hours, the only event has the endpoints \<open>t0\<close> and
  \<open>t3\<close>.
\<close>

theorem exact_window_single_event:
  "(exact_run (historic_pred h) data_index (w * 3600) pre run \<longrightarrow>
      first_date (historic_scan h w (pre @ run @ post)) =
        first_date (historic_scan h w pre) @ data_index (hd run) # first_date (historic_scan h w post)
    \<and> last_date (historic_scan h w (pre @ run @ post)) =
        last_date (historic_scan h w pre) @ data_index (last run) # last_date (historic_scan h w post))
   \<and> (exact_run (realtime_pred s ww) spec_index (w * 3600) pre' run' \<longrightarrow>
      first_date (realtime_scan s ww w (pre' @ run' @ post')) =
        first_date (realtime_scan s ww w pre') @ spec_index (last run') # first_date (realtime_scan s ww w post')
    \<and> last_date (realtime_scan s ww w (pre' @ run' @ post')) =
        last_date (realtime_scan s ww w pre') @ spec_index (hd run') # last_date (realtime_scan s ww w post'))"
proof (intro conjI impI)
  assume run: "exact_run (historic_pred h) data_index (w * 3600) pre run"
  show "first_date (historic_scan h w (pre @ run @ post)) =
        first_date (historic_scan h w pre) @ data_index (hd run) # first_date (historic_scan h w post)"
    by (simp add: historic_scan_events window_scan_exact_run [OF run])
  show "last_date (historic_scan h w (pre @ run @ post)) =
        last_date (historic_scan h w pre) @ data_index (last run) # last_date (historic_scan h w post)"
    by (simp add: historic_scan_events window_scan_exact_run [OF run])
next
  assume run: "exact_run (realtime_pred s ww) spec_index (w * 3600) pre' run'"
  show "first_date (realtime_scan s ww w (pre' @ run' @ post')) =
        first_date (realtime_scan s ww w pre') @ spec_index (last run') # first_date (realtime_scan s ww w post')"
    by (simp add: realtime_scan_events window_scan_exact_run [OF run])
  show "last_date (realtime_scan s ww w (pre' @ run' @ post')) =
        last_date (realtime_scan s ww w pre') @ spec_index (hd run') # last_date (realtime_scan s ww w post')"
    by (simp add: realtime_scan_events window_scan_exact_run [OF run])
qed

lemma hourly_data_run: "exact_run (historic_pred 1) data_index (3 * 3600) [] (take 4 hourly_data)"
  by (simp add: exact_run_def hourly_data_def historic_pred_def)

lemma hourly_spec_run: "exact_run (realtime_pred 1 99) spec_index (3 * 3600) [] (take 4 hourly_spec)"
  by (simp add: exact_run_def hourly_spec_def realtime_pred_def)

theorem exact_window_single_event_witness:
  "exact_run (historic_pred 1) data_index (3 * 3600) [] (take 4 hourly_data)
   \<and> exact_run (realtime_pred 1 99) spec_index (3 * 3600) [] (take 4 hourly_spec)
   \<and> first_date (historic_scan 1 3 hourly_data) = [0]
   \<and> last_date (historic_scan 1 3 hourly_data) = [10800]
   \<and> first_date (realtime_scan 1 99 3 hourly_spec) = [10800]
   \<and> last_date (realtime_scan 1 99 3 hourly_spec) = [0]"
proof -
  have tail_h: "first_date (historic_scan 1 3 (drop 4 hourly_data)) = []
      \<and> last_date (historic_scan 1 3 (drop 4 hourly_data)) = []"
    by (simp add: hourly_data_def historic_scan_def historic_body_def scan_init_def)
  have tail_r: "first_date (realtime_scan 1 99 3 (drop 4 hourly_spec)) = []
      \<and> last_date (realtime_scan 1 99 3 (drop 4 hourly_spec)) = []"
    by (simp add: hourly_spec_def realtime_scan_def realtime_body_def scan_init_def)
  have nil_h: "first_date (historic_scan 1 3 []) = [] \<and> last_date (historic_scan 1 3 []) = []"
    by (simp add: historic_scan_def scan_init_def)
  have nil_r: "first_date (realtime_scan 1 99 3 []) = [] \<and> last_date (realtime_scan 1 99 3 []) = []"
    by (simp add: realtime_scan_def scan_init_def)
  have ends_h: "data_index (hd (take 4 hourly_data)) = 0 \<and> data_index (last (take 4 hourly_data)) = 10800"
    by (simp add: hourly_data_def)
  have ends_r: "spec_index (hd (take 4 hourly_spec)) = 0 \<and> spec_index (last (take 4 hourly_spec)) = 10800"
    by (simp add: hourly_spec_def)
  from exact_window_single_event [of 1 3 "[]" "take 4 hourly_data" "drop 4 hourly_data"
      1 99 "[]" "take 4 hourly_spec" "drop 4 hourly_spec"]
    hourly_data_run hourly_spec_run tail_h tail_r nil_h nil_r ends_h ends_r
  show ?thesis by simp
qed

text \<open>
  C3. On series with the same time stamps and the same outcomes of the predicate, the
  two loops find the same events and record their endpoints in opposite orders: for
  every event \<^verbatim>\<open>realtime\<close> puts the accumulator's last time stamp in \<open>first_date\<close> and
  its first time stamp in \<open>last_date\<close>, \<^verbatim>\<open>historic\<close> puts the first in
  \<open>first_date\<close> and the last in \<open>last_date\<close>.
\<close>

theorem endpoint_order_asymmetry:
  assumes "map (\<lambda>r. (realtime_pred s ww r, spec_index r)) spec =
           map (\<lambda>r. (historic_pred h r, data_index r)) data"
  shows "first_date (historic_scan h w data) =
           map fst (window_scan (historic_pred h) data_index (w * 3600) [] data)
       \<and> last_date (historic_scan h w data) =
           map snd (window_scan (historic_pred h) data_index (w * 3600) [] data)
       \<and> first_date (realtime_scan s ww w spec) =
           map snd (window_scan (historic_pred h) data_index (w * 3600) [] data)
       \<and> last_date (realtime_scan s ww w spec) =
           map fst (window_scan (historic_pred h) data_index (w * 3600) [] data)
       \<and> first_date (realtime_scan s ww w spec) = last_date (historic_scan h w data)
       \<and> last_date (realtime_scan s ww w spec) = first_date (historic_scan h w data)"
proof -
  have "window_scan (realtime_pred s ww) spec_index (w * 3600) [] spec =
        window_scan (historic_pred h) data_index (w * 3600) [] data"
    using assms
      window_scan_map [of "realtime_pred s ww" spec_index "w * 3600" "[]" spec]
      window_scan_map [of "historic_pred h" data_index "w * 3600" "[]" data]
    by simp
  then show ?thesis
    by (simp add: realtime_scan_events historic_scan_events)
qed

theorem endpoint_order_asymmetry_witness:
  "map (\<lambda>r. (realtime_pred 1 99 r, spec_index r)) hourly_spec =
     map (\<lambda>r. (historic_pred 1 r, data_index r)) hourly_data
   \<and> first_date (historic_scan 1 3 hourly_data) = [0]
   \<and> last_date (historic_scan 1 3 hourly_data) = [10800]
   \<and> first_date (realtime_scan 1 99 3 hourly_spec) = [10800]
   \<and> last_date (realtime_scan 1 99 3 hourly_spec) = [0]"
proof -
  have agree: "map (\<lambda>r. (realtime_pred 1 99 r, spec_index r)) hourly_spec =
     map (\<lambda>r. (historic_pred 1 r, data_index r)) hourly_data"
    by (simp add: hourly_spec_def hourly_data_def realtime_pred_def historic_pred_def)
  have "window_scan (historic_pred 1) data_index (3 * 3600) [] hourly_data = [(0, 10800)]"
    by (simp add: hourly_data_def historic_pred_def)
  with endpoint_order_asymmetry [OF agree, of 3] agree show ?thesis by simp
qed

text \<open>
  C7. When the height of every sample is strictly below the threshold, neither loop
  records an event: \<open>first_date\<close> and \<open>last_date\<close> stay empty.
\<close>

theorem below_threshold_no_events:
  "(list_all (\<lambda>r. WVHT r < h) data \<longrightarrow>
      first_date (historic_scan h w data) = [] \<and> last_date (historic_scan h w data) = [])
   \<and> (list_all (\<lambda>r. SwH r < s) spec \<longrightarrow>
      first_date (realtime_scan s ww w spec) = [] \<and> last_date (realtime_scan s ww w spec) = [])"
proof (intro conjI impI)
  assume "list_all (\<lambda>r. WVHT r < h) data"
  then have "list_all (\<lambda>r. \<not> historic_pred h r) data"
    by (simp add: list_all_iff historic_pred_def not_le)
  then have none: "window_scan (historic_pred h) data_index (w * 3600) [] data = []"
    by (rule window_scan_all_fail)
  show "first_date (historic_scan h w data) = []" by (simp add: historic_scan_events none)
  show "last_date (historic_scan h w data) = []" by (simp add: historic_scan_events none)
next
  assume "list_all (\<lambda>r. SwH r < s) spec"
  then have "list_all (\<lambda>r. \<not> realtime_pred s ww r) spec"
    by (simp add: list_all_iff realtime_pred_def not_le)
  then have none: "window_scan (realtime_pred s ww) spec_index (w * 3600) [] spec = []"
    by (rule window_scan_all_fail)
  show "first_date (realtime_scan s ww w spec) = []" by (simp add: realtime_scan_events none)
  show "last_date (realtime_scan s ww w spec) = []" by (simp add: realtime_scan_events none)
qed

theorem below_threshold_no_events_witness:
  "list_all (\<lambda>r. WVHT r < 3) hourly_data
   \<and> first_date (historic_scan 3 1 hourly_data) = [] \<and> last_date (historic_scan 3 1 hourly_data) = []
   \<and> list_all (\<lambda>r. SwH r < 3) hourly_spec
   \<and> first_date (realtime_scan 3 99 1 hourly_spec) = [] \<and> last_date (realtime_scan 3 99 1 hourly_spec) = []"
proof -
  have below_h: "list_all (\<lambda>r. WVHT r < 3) hourly_data"
    by (simp add: hourly_data_def)
  have below_r: "list_all (\<lambda>r. SwH r < 3) hourly_spec"
    by (simp add: hourly_spec_def)
  from below_threshold_no_events [of 3 hourly_data 1 3 hourly_spec 99] below_h below_r
  show ?thesis by simp
qed

text \<open>
  C6. The claim is made for every minimum window; it fails for the window 0, where a
  lone qualifying sample is at once an event whose two endpoints are its own time stamp.
\<close>

theorem single_sample_event_counterexample:
  "first_date (historic_scan 1 0 [\<lparr>data_index = 0, WVHT = 2\<rparr>]) = [0]
   \<and> last_date (historic_scan 1 0 [\<lparr>data_index = 0, WVHT = 2\<rparr>]) = [0]
   \<and> first_date (realtime_scan 1 99 0 [\<lparr>spec_index = 0, SwH = 2, WWH = 1\<rparr>]) = [0]
   \<and> last_date (realtime_scan 1 99 0 [\<lparr>spec_index = 0, SwH = 2, WWH = 1\<rparr>]) = [0]"
  by (simp add: historic_scan_def historic_body_def realtime_scan_def realtime_body_def
      scan_init_def Let_def)

text \<open>
  C6, amended. For every series and every positive minimum window (in hours), no event
  of either loop has two equal endpoints, a series of one sample yields no event, and
  when the first qualifying sample of a series is followed at once by a second
  qualifying sample at least the window away, the first event has exactly these two
  samples as endpoints.
\<close>

theorem no_single_sample_event:
  assumes "0 < w"
  shows "list_all (\<lambda>e. fst e \<noteq> snd e)
           (zip (first_date (historic_scan h w data)) (last_date (historic_scan h w data)))
       \<and> list_all (\<lambda>e. fst e \<noteq> snd e)
           (zip (first_date (realtime_scan s ww w spec)) (last_date (realtime_scan s ww w spec)))
       \<and> first_date (historic_scan h w [r]) = [] \<and> last_date (historic_scan h w [r]) = []
       \<and> first_date (realtime_scan s ww w [r_r]) = [] \<and> last_date (realtime_scan s ww w [r_r]) = []
       \<and> (list_all (\<lambda>x. \<not> historic_pred h x) pre \<and> historic_pred h a \<and> historic_pred h b
            \<and> w * 3600 \<le> \<bar>data_index b - data_index a\<bar> \<longrightarrow>
          first_date (historic_scan h w (pre @ a # b # rest)) =
            data_index a # first_date (historic_scan h w rest)
          \<and> last_date (historic_scan h w (pre @ a # b # rest)) =
            data_index b # last_date (historic_scan h w rest))
       \<and> (list_all (\<lambda>x. \<not> realtime_pred s ww x) pre_r \<and> realtime_pred s ww a_r \<and> realtime_pred s ww b_r
            \<and> w * 3600 \<le> \<bar>spec_index b_r - spec_index a_r\<bar> \<longrightarrow>
          first_date (realtime_scan s ww w (pre_r @ a_r # b_r # rest_r)) =
            spec_index b_r # first_date (realtime_scan s ww w rest_r)
          \<and> last_date (realtime_scan s ww w (pre_r @ a_r # b_r # rest_r)) =
            spec_index a_r # last_date (realtime_scan s ww w rest_r))"
proof -
  from assms have pos: "0 < w * 3600" by simp
  let ?eh = "window_scan (historic_pred h) data_index (w * 3600) [] data"
  let ?er = "window_scan (realtime_pred s ww) spec_index (w * 3600) [] spec"
  have dh: "list_all (\<lambda>e. fst e \<noteq> snd e) ?eh" and dr: "list_all (\<lambda>e. fst e \<noteq> snd e) ?er"
    using pos by (rule window_scan_distinct_endpoints)+
  have zh: "zip (map fst ?eh) (map snd ?eh) = ?eh"
    by (rule zip_map_fst_snd)
  have zr: "zip (map snd ?er) (map fst ?er) = map (\<lambda>e. (snd e, fst e)) ?er"
    by (simp add: zip_map_map zip_same_conv_map)
  have c1: "list_all (\<lambda>e. fst e \<noteq> snd e)
           (zip (first_date (historic_scan h w data)) (last_date (historic_scan h w data)))"
    using dh by (simp add: historic_scan_events zh)
  have c2: "list_all (\<lambda>e. fst e \<noteq> snd e)
           (zip (first_date (realtime_scan s ww w spec)) (last_date (realtime_scan s ww w spec)))"
    using dr by (simp add: realtime_scan_events zr list_all_iff) fastforce
  have c3: "first_date (historic_scan h w [r]) = [] \<and> last_date (historic_scan h w [r]) = []"
    using pos by (simp add: historic_scan_events)
  have c4: "first_date (realtime_scan s ww w [r_r]) = [] \<and> last_date (realtime_scan s ww w [r_r]) = []"
    using pos by (simp add: realtime_scan_events)
  have c5: "first_date (historic_scan h w (pre @ a # b # rest)) =
            data_index a # first_date (historic_scan h w rest)
          \<and> last_date (historic_scan h w (pre @ a # b # rest)) =
            data_index b # last_date (historic_scan h w rest)"
    if "list_all (\<lambda>x. \<not> historic_pred h x) pre \<and> historic_pred h a \<and> historic_pred h b
            \<and> w * 3600 \<le> \<bar>data_index b - data_index a\<bar>"
    using that pos
      window_scan_first_two [of "historic_pred h" pre a b "w * 3600" data_index rest]
    by (simp add: historic_scan_events)
  have c6: "first_date (realtime_scan s ww w (pre_r @ a_r # b_r # rest_r)) =
            spec_index b_r # first_date (realtime_scan s ww w rest_r)
          \<and> last_date (realtime_scan s ww w (pre_r @ a_r # b_r # rest_r)) =
            spec_index a_r # last_date (realtime_scan s ww w rest_r)"
    if "list_all (\<lambda>x. \<not> realtime_pred s ww x) pre_r \<and> realtime_pred s ww a_r \<and> realtime_pred s ww b_r
            \<and> w * 3600 \<le> \<bar>spec_index b_r - spec_index a_r\<bar>"
    using that pos
      window_scan_first_two [of "realtime_pred s ww" pre_r a_r b_r "w * 3600" spec_index rest_r]
    by (simp add: realtime_scan_events)
  from c1 c2 c3 c4 c5 c6 show ?thesis by blast
qed

theorem no_single_sample_event_witness:
  "(0::int) < 1
   \<and> list_all (\<lambda>x. \<not> historic_pred 1 x) [\<lparr>data_index = 0, WVHT = 0\<rparr>]
   \<and> historic_pred 1 \<lparr>data_index = 3600, WVHT = 2\<rparr> \<and> historic_pred 1 \<lparr>data_index = 7200, WVHT = 2\<rparr>
   \<and> list_all (\<lambda>x. \<not> realtime_pred 1 99 x) [\<lparr>spec_index = 0, SwH = 0, WWH = 1\<rparr>]
   \<and> realtime_pred 1 99 \<lparr>spec_index = 3600, SwH = 2, WWH = 1\<rparr>
   \<and> realtime_pred 1 99 \<lparr>spec_index = 7200, SwH = 2, WWH = 1\<rparr>
   \<and> first_date (historic_scan 1 1
        [\<lparr>data_index = 0, WVHT = 0\<rparr>, \<lparr>data_index = 3600, WVHT = 2\<rparr>, \<lparr>data_index = 7200, WVHT = 2\<rparr>]) = [3600]
   \<and> last_date (historic_scan 1 1
        [\<lparr>data_index = 0, WVHT = 0\<rparr>, \<lparr>data_index = 3600, WVHT = 2\<rparr>, \<lparr>data_index = 7200, WVHT = 2\<rparr>]) = [7200]
   \<and> first_date (realtime_scan 1 99 1
        [\<lparr>spec_index = 0, SwH = 0, WWH = 1\<rparr>, \<lparr>spec_index = 3600, SwH = 2, WWH = 1\<rparr>,
         \<lparr>spec_index = 7200, SwH = 2, WWH = 1\<rparr>]) = [7200]
   \<and> last_date (realtime_scan 1 99 1
        [\<lparr>spec_index = 0, SwH = 0, WWH = 1\<rparr>, \<lparr>spec_index = 3600, SwH = 2, WWH = 1\<rparr>,
         \<lparr>spec_index = 7200, SwH = 2, WWH = 1\<rparr>]) = [3600]
   \<and> list_all (\<lambda>e. fst e \<noteq> snd e)
        (zip (first_date (historic_scan 1 1 hourly_data)) (last_date (historic_scan 1 1 hourly_data)))"
proof -
  have pos: "(0::int) < 1" by simp
  have nil_h: "first_date (historic_scan 1 1 []) = [] \<and> last_date (historic_scan 1 1 []) = []"
    by (simp add: historic_scan_def scan_init_def)
  have nil_r: "first_date (realtime_scan 1 99 1 []) = [] \<and> last_date (realtime_scan 1 99 1 []) = []"
    by (simp add: realtime_scan_def scan_init_def)
  from no_single_sample_event [OF pos, where h = 1 and data = hourly_data and s = 1 and ww = 99
      and spec = "[]" and r = "\<lparr>data_index = 0, WVHT = 0\<rparr>"
      and r_r = "\<lparr>spec_index = 0, SwH = 0, WWH = 1\<rparr>"
      and pre = "[\<lparr>data_index = 0, WVHT = 0\<rparr>]"
      and a = "\<lparr>data_index = 3600, WVHT = 2\<rparr>" and b = "\<lparr>data_index = 7200, WVHT = 2\<rparr>"
      and pre_r = "[\<lparr>spec_index = 0, SwH = 0, WWH = 1\<rparr>]"
      and a_r = "\<lparr>spec_index = 3600, SwH = 2, WWH = 1\<rparr>"
      and b_r = "\<lparr>spec_index = 7200, SwH = 2, WWH = 1\<rparr>"
      and rest = "[]" and rest_r = "[]"] nil_h nil_r
  show ?thesis
    by (simp add: historic_pred_def realtime_pred_def)
qed

lemma realtime_endpoints_unfiltered:
  "set (first_date (realtime_scan s ww w (realtime_filter spec)))
     \<union> set (last_date (realtime_scan s ww w (realtime_filter spec)))
   \<subseteq> spec_index ` {r \<in> set spec. SwH r \<noteq> 99}"
proof -
  let ?ev = "window_scan (realtime_pred s ww) spec_index (w * 3600) [] (realtime_filter spec)"
  have "fst e \<in> spec_index ` {r \<in> set spec. SwH r \<noteq> 99}
      \<and> snd e \<in> spec_index ` {r \<in> set spec. SwH r \<noteq> 99}" if "e \<in> set ?ev" for e
  proof -
    from that have "(fst e, snd e) \<in> set ?ev" by simp
    from window_scan_endpoints [OF this] show ?thesis
      by (auto simp add: realtime_filter_def)
  qed
  then show ?thesis
    by (auto simp add: realtime_scan_events)
qed

lemma historic_endpoints_unfiltered:
  "set (first_date (historic_scan h w (historic_filter data)))
     \<union> set (last_date (historic_scan h w (historic_filter data)))
   \<subseteq> data_index ` {r \<in> set data. WVHT r \<noteq> 99}"
proof -
  let ?ev = "window_scan (historic_pred h) data_index (w * 3600) [] (historic_filter data)"
  have "fst e \<in> data_index ` {r \<in> set data. WVHT r \<noteq> 99}
      \<and> snd e \<in> data_index ` {r \<in> set data. WVHT r \<noteq> 99}" if "e \<in> set ?ev" for e
  proof -
    from that have "(fst e, snd e) \<in> set ?ev" by simp
    from window_scan_endpoints [OF this] show ?thesis
      by (auto simp add: historic_filter_def)
  qed
  then show ?thesis
    by (auto simp add: historic_scan_events)
qed

text \<open>
  C8. The rows whose height is the sentinel 99.00 are removed before the scan: a series
  with a sentinel row and the series without it give the same result, in the scan and
  in the whole of \<^verbatim>\<open>realtime\<close> and \<^verbatim>\<open>historic\<close>, so a sentinel row never empties the
  accumulator; and every endpoint of an event is the time stamp of a row that is not a
  sentinel row.
\<close>

theorem sentinel_rows_excluded:
  "(SwH x = 99 \<longrightarrow>
      realtime_scan s ww w (realtime_filter (xs @ x # ys)) =
      realtime_scan s ww w (realtime_filter (xs @ ys)))
   \<and> (WVHT y = 99 \<longrightarrow>
      historic_scan h w (historic_filter (us @ y # vs)) =
      historic_scan h w (historic_filter (us @ vs)))
   \<and> set (first_date (realtime_scan s ww w (realtime_filter spec)))
        \<union> set (last_date (realtime_scan s ww w (realtime_filter spec)))
      \<subseteq> spec_index ` {r \<in> set spec. SwH r \<noteq> 99}
   \<and> set (first_date (historic_scan h w (historic_filter data)))
        \<union> set (last_date (historic_scan h w (historic_filter data)))
      \<subseteq> data_index ` {r \<in> set data. WVHT r \<noteq> 99}
   \<and> (SwH x = 99 \<and> bp_realtime wd loc = xs @ x # ys \<longrightarrow>
      realtime wd loc usr pwd s w ww pn pm pt so ad =
      realtime (wd\<lparr>bp_realtime := (bp_realtime wd)(loc := xs @ ys)\<rparr>) loc usr pwd s w ww pn pm pt so ad)
   \<and> (WVHT y = 99 \<and> bp_historic_data wd loc yr = us @ y # vs \<longrightarrow>
      historic wd loc yr usr pwd h w pn pm pt so ad =
      historic (wd\<lparr>bp_historic_data := (bp_historic_data wd)(loc := (bp_historic_data wd loc)(yr := us @ vs))\<rparr>)
        loc yr usr pwd h w pn pm pt so ad)"
proof (intro conjI impI)
  assume "SwH x = 99"
  then show "realtime_scan s ww w (realtime_filter (xs @ x # ys)) =
      realtime_scan s ww w (realtime_filter (xs @ ys))"
    by (simp add: realtime_filter_sentinel)
next
  assume "WVHT y = 99"
  then show "historic_scan h w (historic_filter (us @ y # vs)) =
      historic_scan h w (historic_filter (us @ vs))"
    by (simp add: historic_filter_sentinel)
next
  show "set (first_date (realtime_scan s ww w (realtime_filter spec)))
        \<union> set (last_date (realtime_scan s ww w (realtime_filter spec)))
      \<subseteq> spec_index ` {r \<in> set spec. SwH r \<noteq> 99}"
    by (rule realtime_endpoints_unfiltered)
next
  show "set (first_date (historic_scan h w (historic_filter data)))
        \<union> set (last_date (historic_scan h w (historic_filter data)))
      \<subseteq> data_index ` {r \<in> set data. WVHT r \<noteq> 99}"
    by (rule historic_endpoints_unfiltered)
next
  assume "SwH x = 99 \<and> bp_realtime wd loc = xs @ x # ys"
  then show "realtime wd loc usr pwd s w ww pn pm pt so ad =
      realtime (wd\<lparr>bp_realtime := (bp_realtime wd)(loc := xs @ ys)\<rparr>) loc usr pwd s w ww pn pm pt so ad"
    by (simp add: realtime_def realtime_filter_sentinel split: sum.split prod.split option.split)
next
  assume "WVHT y = 99 \<and> bp_historic_data wd loc yr = us @ y # vs"
  then show "historic wd loc yr usr pwd h w pn pm pt so ad =
      historic (wd\<lparr>bp_historic_data := (bp_historic_data wd)(loc := (bp_historic_data wd loc)(yr := us @ vs))\<rparr>)
        loc yr usr pwd h w pn pm pt so ad"
    by (simp add: historic_def historic_filter_sentinel split: sum.split prod.split option.split)
qed

lemma demo_resolver:
  "get_lat_lon_from_ndbcnoaa (requests_get demo_world) index = Inr ([], (Some (206 / 5), Some (- (363 / 5))))"
  by (simp add: demo_world_def get_lat_lon_from_ndbcnoaa_def match_here_def digits1_def
      is_digit_def float_of_def digits_value_def digit_val_def)

lemma demo_two_products_off:
  "historic_event ''off'' [(''5f1c'', ''S1A_IW_SLC_001''), (''9e2d'', ''S1A_IW_SLC_002'')] fs =
     Inr (fs\<lparr>product_list := product_list fs @ [''S1A_IW_SLC_002'']\<rparr>)"
  by (simp add: historic_event_def product_keys_of_def str_keys_def slice_def title_of_def Let_def)

lemma demo_historic_scan:
  "historic_scan 1 3 (historic_filter (bp_historic_data demo_world location year)) =
     \<lparr>swell_event = [], first_date = [0], last_date = [10800]\<rparr>"
  by (simp add: demo_world_def hourly_data_def sentinel_data_row_def historic_filter_def
      historic_scan_def historic_body_def scan_init_def Let_def)

lemma demo_realtime_scan:
  "realtime_scan 1 99 3 (realtime_filter (bp_realtime demo_world location)) =
     \<lparr>swell_event = [], first_date = [10800], last_date = [0]\<rparr>"
  by (simp add: demo_world_def hourly_spec_def sentinel_spec_row_def realtime_filter_def
      realtime_scan_def realtime_body_def scan_init_def Let_def)

lemma demo_two_products_off_realtime:
  "realtime_event ''off'' [(''5f1c'', ''S1A_IW_SLC_001''), (''9e2d'', ''S1A_IW_SLC_002'')] fs =
     Inr (fs\<lparr>product_list := product_list fs @ [''S1A_IW_SLC_002'']\<rparr>)"
  by (simp add: realtime_event_def product_keys_of_def str_keys_def slice_def title_of_def Let_def)

theorem sentinel_rows_excluded_witness:
  "SwH sentinel_spec_row = 99 \<and> WVHT sentinel_data_row = 99
   \<and> bp_realtime demo_world 41001 = take 2 hourly_spec @ sentinel_spec_row # drop 2 hourly_spec
   \<and> bp_historic_data demo_world 41001 2015 = take 2 hourly_data @ sentinel_data_row # drop 2 hourly_data
   \<and> realtime_scan 1 99 3 (realtime_filter (take 2 hourly_spec @ sentinel_spec_row # drop 2 hourly_spec)) =
       realtime_scan 1 99 3 (realtime_filter hourly_spec)
   \<and> historic_scan 1 3 (historic_filter (take 2 hourly_data @ sentinel_data_row # drop 2 hourly_data)) =
       historic_scan 1 3 (historic_filter hourly_data)
   \<and> realtime demo_world 41001 ''user'' ''secret'' 1 3 99 ''Sentinel-1'' ''VV'' ''SLC'' ''IW'' ''off'' =
       realtime (demo_world\<lparr>bp_realtime := (bp_realtime demo_world)(41001 := hourly_spec)\<rparr>)
         41001 ''user'' ''secret'' 1 3 99 ''Sentinel-1'' ''VV'' ''SLC'' ''IW'' ''off''
   \<and> historic demo_world 41001 2015 ''user'' ''secret'' 1 3 ''Sentinel-1'' ''VV'' ''SLC'' ''IW'' ''off'' =
       historic (demo_world\<lparr>bp_historic_data :=
           (bp_historic_data demo_world)(41001 := (bp_historic_data demo_world 41001)(2015 := hourly_data))\<rparr>)
         41001 2015 ''user'' ''secret'' 1 3 ''Sentinel-1'' ''VV'' ''SLC'' ''IW'' ''off''"
proof -
  have sr: "SwH sentinel_spec_row = 99" by (simp add: sentinel_spec_row_def)
  have sd: "WVHT sentinel_data_row = 99" by (simp add: sentinel_data_row_def)
  have br: "bp_realtime demo_world 41001 = take 2 hourly_spec @ sentinel_spec_row # drop 2 hourly_spec"
    by (simp add: demo_world_def)
  have bh: "bp_historic_data demo_world 41001 2015 =
      take 2 hourly_data @ sentinel_data_row # drop 2 hourly_data"
    by (simp add: demo_world_def)
  from sentinel_rows_excluded [where x = sentinel_spec_row and y = sentinel_data_row
      and xs = "take 2 hourly_spec" and ys = "drop 2 hourly_spec"
      and us = "take 2 hourly_data" and vs = "drop 2 hourly_data"
      and wd = demo_world and loc = 41001 and yr = 2015 and s = 1 and ww = 99 and w = 3 and h = 1
      and usr = "''user''" and pwd = "''secret''" and pn = "''Sentinel-1''" and pm = "''VV''"
      and pt = "''SLC''" and so = "''IW''" and ad = "''off''" and spec = "[]" and data = "[]"]
    sr sd br bh
  show ?thesis by simp
qed

text \<open>
  C9. With the switch off the functions are documented to return the titles of all the
  products found. For an event whose query answers two products, both functions add
  one title only, that of the last product: the index \<open>i\<close> used to read the title is
  the one left by the loop over the keys.
\<close>

theorem returns_last_title_only:
  "historic demo_world 41001 2015 ''user'' ''secret'' 1 3 ''Sentinel-1'' ''VV'' ''SLC'' ''IW'' ''off'' =
     Inr \<lparr>product_list = [''S1A_IW_SLC_002''], downloaded = []\<rparr>
   \<and> realtime demo_world 41001 ''user'' ''secret'' 1 3 99 ''Sentinel-1'' ''VV'' ''SLC'' ''IW'' ''off'' =
     Inr \<lparr>product_list = [''S1A_IW_SLC_002''], downloaded = []\<rparr>"
proof
  show "historic demo_world 41001 2015 ''user'' ''secret'' 1 3 ''Sentinel-1'' ''VV'' ''SLC'' ''IW'' ''off'' =
     Inr \<lparr>product_list = [''S1A_IW_SLC_002''], downloaded = []\<rparr>"
    by (simp add: historic_def demo_resolver demo_historic_scan fetch_init_def)
       (simp add: demo_world_def demo_two_products_off)
  show "realtime demo_world 41001 ''user'' ''secret'' 1 3 99 ''Sentinel-1'' ''VV'' ''SLC'' ''IW'' ''off'' =
     Inr \<lparr>product_list = [''S1A_IW_SLC_002''], downloaded = []\<rparr>"
    by (simp add: realtime_def demo_resolver demo_realtime_scan fetch_init_def)
       (simp add: demo_world_def demo_two_products_off_realtime)
qed

lemma event_without_products:
  "realtime_event auto_download [] fs = Inr fs \<and> historic_event auto_download [] fs = Inr fs"
  by (simp add: realtime_event_def historic_event_def)

lemma historic_event_download:
  "products \<noteq> [] \<Longrightarrow>
   historic_event ''on'' products fs = Inr (fs\<lparr>downloaded := downloaded fs @ [products]\<rparr>)"
  by (simp add: historic_event_def Let_def)

text \<open>
  C4. When the status of the response is not 200 the resolver does not return a null
  coordinate: building the diagnostic adds an integer to a string, which raises
  \<^verbatim>\<open>TypeError\<close> before anything is printed. (When the status is 200 and the pattern
  is not found it prints the diagnostic and returns the null coordinate.)
\<close>

theorem resolver_raises_on_failed_fetch:
  "get_lat_lon_from_ndbcnoaa (\<lambda>index. \<lparr>status_code = 404, response_text = ''Not Found''\<rparr>) 41001 =
     Inl TypeError"
  by (simp add: get_lat_lon_from_ndbcnoaa_def)

lemma resolver_pattern_not_found:
  "get_lat_lon_from_ndbcnoaa (\<lambda>index. \<lparr>status_code = 200, response_text = ''no position''\<rparr>) 41001 =
     Inr ([''Regex pattern not found... ''], (None, None))"
  by (simp add: get_lat_lon_from_ndbcnoaa_def match_here_def digits1_def is_digit_def)

text \<open>
  C5. The pattern is matched without regard to case, the hemisphere letter is compared
  with the capitals \<open>S\<close> and \<open>W\<close> only: a page with a southern latitude and a western
  longitude written in small letters gives both coordinates positive. (With capitals,
  \<open>41.2 N 72.6 W\<close> gives \<open>(41.2, -72.6)\<close>.)
\<close>

theorem resolver_lowercase_hemisphere_not_negated:
  "get_lat_lon_from_ndbcnoaa (\<lambda>index. \<lparr>status_code = 200, response_text = ''41.2 s 72.6 w''\<rparr>) 41001 =
     Inr ([], (Some (206 / 5), Some (363 / 5)))"
  by (simp add: get_lat_lon_from_ndbcnoaa_def match_here_def digits1_def is_digit_def
      float_of_def digits_value_def digit_val_def)

lemma resolver_uppercase_example:
  "get_lat_lon_from_ndbcnoaa (\<lambda>index. \<lparr>status_code = 200, response_text = ''41.2 N 72.6 W''\<rparr>) 41001 =
     Inr ([], (Some (206 / 5), Some (- (363 / 5))))"
  by (simp add: get_lat_lon_from_ndbcnoaa_def match_here_def digits1_def is_digit_def
      float_of_def digits_value_def digit_val_def)

text \<open>
  C10. The result of \<^verbatim>\<open>any_realtime\<close> does not depend on its arguments \<open>window\<close>,
  \<open>wind_wave_height\<close>, \<open>platformname\<close>, \<open>polarisationmode\<close>, \<open>producttype\<close> and
  \<open>sensoroperationalmode\<close>: every station is processed by \<^verbatim>\<open>realtime\<close> with the
  location, the credentials and the swell height, and the defaults 24, 99,
  \<open>Sentinel-1\<close>, \<open>VV\<close>, \<open>SLC\<close>, \<open>IW\<close> for the rest.
\<close>

theorem any_realtime_ignores_options:
  "any_realtime wd usr pwd s w1 ww1 pn1 pm1 pt1 so1 = any_realtime wd usr pwd s w2 ww2 pn2 pm2 pt2 so2
   \<and> any_realtime wd usr pwd s w1 ww1 pn1 pm1 pt1 so1 =
       all_products_loop
         (\<lambda>station. realtime wd station usr pwd s 24 99 ''Sentinel-1'' ''VV'' ''SLC'' ''IW'' ''off'')
         list_of_realtime_buoys_NOAA []"
  by (simp add: any_realtime_def)

theorem any_realtime_ignores_options_witness:
  "any_realtime demo_world ''user'' ''secret'' 1 3 1 ''Sentinel-2'' ''HH'' ''GRD'' ''EW'' =
     any_realtime demo_world ''user'' ''secret'' 1 24 99 ''Sentinel-1'' ''VV'' ''SLC'' ''IW''"
  using any_realtime_ignores_options [of demo_world "''user''" "''secret''" 1 3 1
      "''Sentinel-2''" "''HH''" "''GRD''" "''EW''" 24 99 "''Sentinel-1''" "''VV''" "''SLC''" "''IW''"]
  by blast

end
